theory Spec2Isabelle
  imports Complex_Main
begin

section \<open>JavaScript string operations used by the image workflow\<close>

text \<open>
  \<^verbatim>\<open>s.startsWith(p)\<close>: the first \<open>length p\<close> characters of \<open>s\<close> are \<open>p\<close>.
\<close>

definition startsWith :: "string \<Rightarrow> string \<Rightarrow> bool" where
  "startsWith s p = (take (length p) s = p)"

text \<open>
  \<^verbatim>\<open>s.includes(m)\<close>: \<open>m\<close> occurs in \<open>s\<close> as a contiguous substring, at some offset.
\<close>

fun includes_str :: "string \<Rightarrow> string \<Rightarrow> bool" where
  "includes_str [] m = (m = [])"
| "includes_str (c # s) m = (startsWith (c # s) m \<or> includes_str s m)"

text \<open>
  \<^verbatim>\<open>s.split(c)\<close> for a one-character separator: the list of the maximal pieces between
  separators. It is never empty (\<^verbatim>\<open>"".split("/")\<close> is \<^verbatim>\<open>[""]\<close>), so
  \<^verbatim>\<open>parts[parts.length - 1]\<close> and \<^verbatim>\<open>parts.pop()\<close> always give its last piece.
\<close>

fun split_str :: "char \<Rightarrow> string \<Rightarrow> string list" where
  "split_str c [] = [[]]"
| "split_str c (x # xs) =
     (if x = c then [] # split_str c xs
      else (case split_str c xs of
              [] \<Rightarrow> [[x]]
            | p # ps \<Rightarrow> (x # p) # ps))"

text \<open>Template-literal rendering of a non-negative integer such as \<^verbatim>\<open>Date.now()\<close>: decimal digits.\<close>

definition digit_char :: "nat \<Rightarrow> char" where
  "digit_char d = ''0123456789'' ! d"

fun show_nat :: "nat \<Rightarrow> string" where
  "show_nat n = (if n < 10 then [digit_char n] else show_nat (n div 10) @ [digit_char (n mod 10)])"

declare show_nat.simps [simp del]

section \<open>Resizing\<close>

text \<open>
  Both \<^verbatim>\<open>resizeImage\<close> functions (ImageUpload.tsx and Gallery.tsx) compute the new width and
  height as JavaScript numbers, with a true division, and assign them to \<^verbatim>\<open>canvas.width\<close>
  and \<^verbatim>\<open>canvas.height\<close>. The numbers are modelled as reals (the products of pixel counts
  are far below \<open>2^53\<close>, where a floating-point quotient of two integers truncates to the
  same integer as the exact quotient). The canvas attributes are unsigned integers:
  assigning a fractional number drops the fraction. \<open>maxSize\<close> is a whole number of pixels; every call in the
  repository uses the default, 1080. The divisions never divide by zero: the divisor is the
  edge that was found greater than another natural number.
\<close>

definition resizeImage_dims :: "nat \<Rightarrow> nat \<Rightarrow> nat \<Rightarrow> real \<times> real" where
  "resizeImage_dims width height maxSize =
     (if width > height then
        (if width > maxSize
         then (of_nat maxSize, (of_nat height * of_nat maxSize) / of_nat width)
         else (of_nat width, of_nat height))
      else
        (if height > maxSize
         then ((of_nat width * of_nat maxSize) / of_nat height, of_nat maxSize)
         else (of_nat width, of_nat height)))"

definition gallery_resizeImage_dims :: "nat \<Rightarrow> nat \<Rightarrow> nat \<Rightarrow> real \<times> real" where
  "gallery_resizeImage_dims width height maxSize =
     (let newWidth = of_nat width; newHeight = of_nat height in
      if width > height then
        (if width > maxSize
         then (of_nat maxSize, (of_nat height * of_nat maxSize) / of_nat width)
         else (newWidth, newHeight))
      else
        (if height > maxSize
         then ((of_nat width * of_nat maxSize) / of_nat height, of_nat maxSize)
         else (newWidth, newHeight)))"

definition canvas_size :: "real \<Rightarrow> nat" where
  "canvas_size x = nat \<lfloor>x\<rfloor>"

definition canvas_dims :: "real \<times> real \<Rightarrow> nat \<times> nat" where
  "canvas_dims d = (canvas_size (fst d), canvas_size (snd d))"

section \<open>Files, blobs and the remote platform\<close>

text \<open>
  A browser \<^verbatim>\<open>File\<close>: its name, declared media type and byte size. \<open>file_image\<close> is the
  natural width and height of the picture the browser decodes from it, or \<open>None\<close> when the
  bytes do not decode: then \<^verbatim>\<open>img.onload\<close> never fires and the promise returned by
  \<^verbatim>\<open>resizeImage\<close> never settles (neither function installs an \<^verbatim>\<open>onerror\<close> handler).
\<close>

record File =
  file_name :: string
  file_type :: string
  file_size :: nat
  file_image :: "(nat \<times> nat) option"

text \<open>
  A blob produced by \<^verbatim>\<open>canvas.toBlob(cb, type, quality)\<close>: the encoding, the quality factor,
  the pixel size of the canvas, and the file whose picture was drawn on it.
\<close>

record blob =
  blob_type :: string
  blob_quality :: real
  blob_width :: nat
  blob_height :: nat
  blob_source :: File

text \<open>
  \<^verbatim>\<open>canvas.toBlob\<close> on a canvas of the given size: when the canvas has no pixels (its width
  or its height is zero) the callback receives \<^verbatim>\<open>null\<close>, modelled by \<open>None\<close>; otherwise it
  receives a blob of the canvas's size. Both resize functions pass the callback's argument
  on with \<^verbatim>\<open>resolve(blob!)\<close>, which does not change a \<^verbatim>\<open>null\<close>.
\<close>

definition toBlob :: "File \<Rightarrow> nat \<times> nat \<Rightarrow> string \<Rightarrow> real \<Rightarrow> blob option" where
  "toBlob f d type quality =
     (if fst d = 0 \<or> snd d = 0 then None
      else Some \<lparr>blob_type = type, blob_quality = quality,
                  blob_width = fst d, blob_height = snd d, blob_source = f\<rparr>)"

record uploadOptions =
  contentType :: string
  upsert :: bool

text \<open>
  How an awaited call of the remote client settles: it resolves without an error, it
  resolves with an \<^verbatim>\<open>{ error }\<close> object (carrying a message), or it rejects (throws).
\<close>

datatype outcome = Resolved | ReturnedError string | Rejected string

text \<open>
  Everything the workflow reads from outside: the answers of the object store and of the
  \<^verbatim>\<open>gallery\<close> table, \<^verbatim>\<open>Math.random().toString(36).substring(2)\<close>, \<^verbatim>\<open>Date.now()\<close> and
  \<^verbatim>\<open>URL.createObjectURL\<close>.
\<close>

record world =
  remove_outcome :: "string list \<Rightarrow> outcome"
  upload_outcome :: "string \<Rightarrow> outcome"
  getPublicUrl :: "string \<Rightarrow> string"
  insert_outcome :: "string \<Rightarrow> outcome"
  delete_outcome :: "nat \<Rightarrow> outcome"
  random_token :: string
  date_now :: nat
  createObjectURL :: "File \<Rightarrow> string"

text \<open>
  The observable effects, recorded in the order the code performs them. Storage events carry
  the bucket name given to \<^verbatim>\<open>supabase.storage.from\<close>; \<open>StorageUpload\<close> carries the key, the
  body (a blob, or \<open>None\<close> for \<^verbatim>\<open>null\<close>) and the options argument (\<open>None\<close> when the call
  passes no third argument).
\<close>

datatype event =
    ToastError string
  | ToastSuccess string
  | ConsoleError string
  | StorageRemove string "string list"
  | StorageUpload string string "blob option" "uploadOptions option"
  | StorageGetPublicUrl string string
  | OnChange string
  | GalleryInsert string
  | GalleryDelete nat
  | GallerySelect
  | RevokeObjectURL string

definition storage_marker :: string where
  "storage_marker = ''/storage/v1/object/public/uploads/''"

section \<open>ImageUpload.tsx\<close>

text \<open>
  The component's props are \<^verbatim>\<open>value\<close> (the currently linked URL; absent and empty are both
  falsy and both modelled by the empty string) and \<^verbatim>\<open>onChange\<close> (recorded as an event). Its
  own state is the preview URL and the in-progress flag; clearing the hidden file input in
  \<^verbatim>\<open>removeImage\<close> has no effect on either and is left out. Each function returns the new
  state and the events of the call. When the picture does not decode, \<^verbatim>\<open>uploadImage\<close> stays
  suspended at the resize step: the in-progress flag remains set and nothing follows the
  cleanup.
\<close>

record imageUpload_state =
  iu_preview :: string
  iu_uploading :: bool

text \<open>
  The promise returned by \<^verbatim>\<open>resizeImage\<close>: \<open>None\<close> when it never settles (the picture does
  not decode), otherwise \<open>Some\<close> of the value it resolves with, which is a blob or \<^verbatim>\<open>null\<close>.
\<close>

definition resizeImage :: "File \<Rightarrow> nat \<Rightarrow> blob option option" where
  "resizeImage f maxSize =
     (case file_image f of
        None \<Rightarrow> None
      | Some (width, height) \<Rightarrow>
          (let d = canvas_dims (resizeImage_dims width height maxSize)
           in Some (toBlob f d ''image/jpeg'' (8 / 10))))"

definition deleteOldImage :: "world \<Rightarrow> string \<Rightarrow> event list" where
  "deleteOldImage w imageUrl =
     (if imageUrl = [] then []
      else
        (let urlParts = split_str CHR ''/'' imageUrl;
             fileName = last urlParts
         in if includes_str imageUrl storage_marker
            then (case remove_outcome w [fileName] of
                    Rejected m \<Rightarrow>
                      [StorageRemove ''uploads'' [fileName],
                       ConsoleError ''Error deleting old image:'']
                  | _ \<Rightarrow> [StorageRemove ''uploads'' [fileName]])
            else []))"

text \<open>The key: \<^verbatim>\<open>`${random}-${Date.now()}.${file.name.split('.').pop()}`\<close>.\<close>

definition iu_fileName :: "world \<Rightarrow> File \<Rightarrow> string" where
  "iu_fileName w f =
     (let fileExt = last (split_str CHR ''.'' (file_name f))
      in random_token w @ ''-'' @ show_nat (date_now w) @ ''.'' @ fileExt)"

text \<open>
  The \<^verbatim>\<open>catch\<close> and \<^verbatim>\<open>finally\<close> blocks of \<^verbatim>\<open>uploadImage\<close>, reached with the events so far
  and the message of the error: \<^verbatim>\<open>toast.error(error.message || 'Failed to upload image')\<close>.
\<close>

definition upload_failed :: "imageUpload_state \<Rightarrow> event list \<Rightarrow> string
    \<Rightarrow> imageUpload_state \<times> event list" where
  "upload_failed st t m =
     (st\<lparr>iu_uploading := False\<rparr>,
      t @ [ConsoleError ''Upload error:'',
           ToastError (if m = [] then ''Failed to upload image'' else m)])"

definition uploadImage :: "world \<Rightarrow> string \<Rightarrow> imageUpload_state \<Rightarrow> File
    \<Rightarrow> imageUpload_state \<times> event list" where
  "uploadImage w val st f =
     (let t1 = (if val \<noteq> [] then deleteOldImage w val else [])
      in case resizeImage f 1080 of
           None \<Rightarrow> (st\<lparr>iu_uploading := True\<rparr>, t1)
         | Some resizedBlob \<Rightarrow>
             (let fileName = iu_fileName w f;
                  t2 = t1 @ [StorageUpload ''uploads'' fileName resizedBlob
                               (Some \<lparr>contentType = ''image/jpeg'', upsert = False\<rparr>)]
              in case upload_outcome w fileName of
                   Resolved \<Rightarrow>
                     (let publicUrl = getPublicUrl w fileName
                      in (st\<lparr>iu_preview := publicUrl, iu_uploading := False\<rparr>,
                          t2 @ [StorageGetPublicUrl ''uploads'' fileName,
                                OnChange publicUrl,
                                ToastSuccess ''Image uploaded successfully'']))
                 | ReturnedError m \<Rightarrow> upload_failed st t2 m
                 | Rejected m \<Rightarrow> upload_failed st t2 m))"

definition handleFileSelect :: "world \<Rightarrow> string \<Rightarrow> imageUpload_state \<Rightarrow> File option
    \<Rightarrow> imageUpload_state \<times> event list" where
  "handleFileSelect w val st selected =
     (case selected of
        None \<Rightarrow> (st, [])
      | Some f \<Rightarrow>
          if \<not> startsWith (file_type f) ''image/''
          then (st, [ToastError ''Please select an image file''])
          else if file_size f > 10 * 1024 * 1024
          then (st, [ToastError ''File size must be less than 10MB''])
          else uploadImage w val st f)"

definition removeImage :: "world \<Rightarrow> imageUpload_state \<Rightarrow> imageUpload_state \<times> event list" where
  "removeImage w st =
     (let t = (if iu_preview st \<noteq> [] then deleteOldImage w (iu_preview st) else [])
      in (st\<lparr>iu_preview := []\<rparr>, t @ [OnChange []]))"

section \<open>Activities.tsx\<close>

text \<open>The same cleanup helper as \<open>deleteOldImage\<close>, with its own log message.\<close>

definition deleteImageFromStorage :: "world \<Rightarrow> string \<Rightarrow> event list" where
  "deleteImageFromStorage w imageUrl =
     (if imageUrl = [] then []
      else
        (let urlParts = split_str CHR ''/'' imageUrl;
             fileName = last urlParts
         in if includes_str imageUrl storage_marker
            then (case remove_outcome w [fileName] of
                    Rejected m \<Rightarrow>
                      [StorageRemove ''uploads'' [fileName],
                       ConsoleError ''Error deleting image:'']
                  | _ \<Rightarrow> [StorageRemove ''uploads'' [fileName]])
            else []))"

section \<open>Gallery.tsx\<close>

text \<open>
  The page state that the upload and delete handlers read or write. \<^verbatim>\<open>fetchImages\<close>, started
  without being awaited after a successful upload, is recorded as the \<open>GallerySelect\<close> event.
\<close>

record galleryImage =
  gi_id :: nat
  gi_image :: string
  gi_created_at :: string

record gallery_state =
  g_images :: "galleryImage list"
  g_selectedFile :: "File option"
  g_previewUrl :: "string option"
  g_uploading :: bool
  g_uploadDialogOpen :: bool

definition gallery_resizeImage :: "File \<Rightarrow> nat \<Rightarrow> blob option option" where
  "gallery_resizeImage f maxSize =
     (case file_image f of
        None \<Rightarrow> None
      | Some (width, height) \<Rightarrow>
          (let d = canvas_dims (gallery_resizeImage_dims width height maxSize)
           in Some (toBlob f d ''image/jpeg'' (9 / 10))))"

definition gallery_handleFileSelect :: "world \<Rightarrow> gallery_state \<Rightarrow> File option
    \<Rightarrow> gallery_state \<times> event list" where
  "gallery_handleFileSelect w st selected =
     (case selected of
        None \<Rightarrow> (st, [])
      | Some f \<Rightarrow>
          if \<not> startsWith (file_type f) ''image/''
          then (st, [ToastError ''Please select an image file''])
          else if file_size f > 10 * 1024 * 1024
          then (st, [ToastError ''File size must be less than 10MB''])
          else (st\<lparr>g_selectedFile := Some f, g_previewUrl := Some (createObjectURL w f)\<rparr>, []))"

definition handleCancelUpload :: "gallery_state \<Rightarrow> gallery_state \<times> event list" where
  "handleCancelUpload st =
     (st\<lparr>g_selectedFile := None, g_previewUrl := None\<rparr>,
      (case g_previewUrl st of
         None \<Rightarrow> []
       | Some u \<Rightarrow> if u = [] then [] else [RevokeObjectURL u]))"

text \<open>The key: \<^verbatim>\<open>`${Date.now()}-${selectedFile.name}`\<close>.\<close>

definition gallery_fileName :: "world \<Rightarrow> File \<Rightarrow> string" where
  "gallery_fileName w f = show_nat (date_now w) @ ''-'' @ file_name f"

text \<open>The \<^verbatim>\<open>catch\<close> and \<^verbatim>\<open>finally\<close> blocks of \<^verbatim>\<open>handleConfirmUpload\<close>.\<close>

definition confirm_failed :: "gallery_state \<Rightarrow> event list \<Rightarrow> gallery_state \<times> event list" where
  "confirm_failed st t =
     (st\<lparr>g_uploading := False\<rparr>,
      t @ [ConsoleError ''Error uploading image:'', ToastError ''Failed to upload image''])"

definition handleConfirmUpload :: "world \<Rightarrow> gallery_state \<Rightarrow> gallery_state \<times> event list" where
  "handleConfirmUpload w st =
     (case g_selectedFile st of
        None \<Rightarrow> (st, [])
      | Some selectedFile \<Rightarrow>
          (case gallery_resizeImage selectedFile 1080 of
             None \<Rightarrow> (st\<lparr>g_uploading := True\<rparr>, [])
           | Some resizedBlob \<Rightarrow>
               (let fileName = gallery_fileName w selectedFile;
                    t1 = [StorageUpload ''uploads'' fileName resizedBlob None]
                in case upload_outcome w fileName of
                     Resolved \<Rightarrow>
                       (let publicUrl = getPublicUrl w fileName;
                            t2 = t1 @ [StorageGetPublicUrl ''uploads'' fileName,
                                       GalleryInsert publicUrl]
                        in case insert_outcome w publicUrl of
                             Resolved \<Rightarrow>
                               (let (st', tc) = handleCancelUpload st
                                in (st'\<lparr>g_uploadDialogOpen := False, g_uploading := False\<rparr>,
                                    t2 @ [ToastSuccess ''Image uploaded successfully'']
                                       @ tc @ [GallerySelect]))
                           | ReturnedError m \<Rightarrow> confirm_failed st t2
                           | Rejected m \<Rightarrow> confirm_failed st t2)
                   | ReturnedError m \<Rightarrow> confirm_failed st t1
                   | Rejected m \<Rightarrow> confirm_failed st t1)))"

text \<open>
  The \<^verbatim>\<open>catch\<close> block of \<^verbatim>\<open>handleDeleteImage\<close>, and the end of its \<^verbatim>\<open>try\<close> block (success
  toast, the image dropped from the list). The result of \<^verbatim>\<open>remove\<close> is not inspected, so only
  a rejection of that call reaches the \<^verbatim>\<open>catch\<close> block.
\<close>

definition delete_failed :: "gallery_state \<Rightarrow> event list \<Rightarrow> gallery_state \<times> event list" where
  "delete_failed st t =
     (st, t @ [ConsoleError ''Error deleting image:'', ToastError ''Failed to delete image''])"

definition delete_done :: "gallery_state \<Rightarrow> nat \<Rightarrow> event list \<Rightarrow> gallery_state \<times> event list" where
  "delete_done st ident t =
     (st\<lparr>g_images := filter (\<lambda>img. gi_id img \<noteq> ident) (g_images st)\<rparr>,
      t @ [ToastSuccess ''Image deleted successfully''])"

definition handleDeleteImage :: "world \<Rightarrow> gallery_state \<Rightarrow> nat \<Rightarrow> string
    \<Rightarrow> gallery_state \<times> event list" where
  "handleDeleteImage w st ident imageUrl =
     (let t1 = [GalleryDelete ident]
      in case delete_outcome w ident of
           ReturnedError m \<Rightarrow> delete_failed st t1
         | Rejected m \<Rightarrow> delete_failed st t1
         | Resolved \<Rightarrow>
             if includes_str imageUrl storage_marker
             then (let urlParts = split_str CHR ''/'' imageUrl;
                       fileName = last urlParts;
                       t2 = t1 @ [StorageRemove ''uploads'' [fileName]]
                   in case remove_outcome w [fileName] of
                        Rejected m \<Rightarrow> delete_failed st t2
                      | _ \<Rightarrow> delete_done st ident t2)
             else delete_done st ident t1)"

section \<open>Vocabulary for the properties\<close>

fun is_remove :: "event \<Rightarrow> bool" where
  "is_remove (StorageRemove b ks) = True"
| "is_remove e = False"

fun is_upload :: "event \<Rightarrow> bool" where
  "is_upload (StorageUpload b k bl opts) = True"
| "is_upload e = False"

fun is_toast_error :: "event \<Rightarrow> bool" where
  "is_toast_error (ToastError m) = True"
| "is_toast_error e = False"

fun is_onChange :: "event \<Rightarrow> bool" where
  "is_onChange (OnChange u) = True"
| "is_onChange e = False"

fun is_insert :: "event \<Rightarrow> bool" where
  "is_insert (GalleryInsert u) = True"
| "is_insert e = False"

text \<open>Calls that reach the object store or the database.\<close>

fun is_remote :: "event \<Rightarrow> bool" where
  "is_remote (StorageRemove b ks) = True"
| "is_remote (StorageUpload b k bl opts) = True"
| "is_remote (StorageGetPublicUrl b k) = True"
| "is_remote (GalleryInsert u) = True"
| "is_remote (GalleryDelete i) = True"
| "is_remote GallerySelect = True"
| "is_remote e = False"

text \<open>
  What each upload workflow does once the upload call has been issued under a key, as a
  function of how that call (and, in the gallery, the insert) settles. These two functions
  only name the tails of the traces of \<open>uploadImage\<close> and \<open>handleConfirmUpload\<close>.
\<close>

definition iu_after_upload :: "world \<Rightarrow> string \<Rightarrow> event list" where
  "iu_after_upload w fileName =
     (case upload_outcome w fileName of
        Resolved \<Rightarrow>
          [StorageGetPublicUrl ''uploads'' fileName, OnChange (getPublicUrl w fileName),
           ToastSuccess ''Image uploaded successfully'']
      | ReturnedError m \<Rightarrow>
          [ConsoleError ''Upload error:'',
           ToastError (if m = [] then ''Failed to upload image'' else m)]
      | Rejected m \<Rightarrow>
          [ConsoleError ''Upload error:'',
           ToastError (if m = [] then ''Failed to upload image'' else m)])"

definition gallery_after_upload :: "world \<Rightarrow> gallery_state \<Rightarrow> string \<Rightarrow> event list" where
  "gallery_after_upload w st fileName =
     (case upload_outcome w fileName of
        Resolved \<Rightarrow>
          StorageGetPublicUrl ''uploads'' fileName #
          GalleryInsert (getPublicUrl w fileName) #
          (case insert_outcome w (getPublicUrl w fileName) of
             Resolved \<Rightarrow>
               ToastSuccess ''Image uploaded successfully'' #
               snd (handleCancelUpload st) @ [GallerySelect]
           | ReturnedError m \<Rightarrow>
               [ConsoleError ''Error uploading image:'', ToastError ''Failed to upload image'']
           | Rejected m \<Rightarrow>
               [ConsoleError ''Error uploading image:'', ToastError ''Failed to upload image''])
      | ReturnedError m \<Rightarrow>
          [ConsoleError ''Error uploading image:'', ToastError ''Failed to upload image'']
      | Rejected m \<Rightarrow>
          [ConsoleError ''Error uploading image:'', ToastError ''Failed to upload image''])"

text \<open>A run of either upload workflow is successful when it shows the success toast.\<close>

definition run_succeeded :: "event list \<Rightarrow> bool" where
  "run_succeeded t = (ToastSuccess ''Image uploaded successfully'' \<in> set t)"

text \<open>
  \<^verbatim>\<open>s.endsWith(p)\<close>, and the reading of "suffixed appropriately for the target JPEG
  encoding": the key ends with a JPEG file extension.
\<close>

definition endsWith :: "string \<Rightarrow> string \<Rightarrow> bool" where
  "endsWith s p = (length p \<le> length s \<and> drop (length s - length p) s = p)"

definition jpeg_suffixed :: "string \<Rightarrow> bool" where
  "jpeg_suffixed k = (endsWith k ''.jpg'' \<or> endsWith k ''.jpeg'')"

fun is_console_error :: "event \<Rightarrow> bool" where
  "is_console_error (ConsoleError m) = True"
| "is_console_error e = False"

definition blob_dims :: "blob \<Rightarrow> nat \<times> nat" where
  "blob_dims b = (blob_width b, blob_height b)"

fun upload_key :: "event \<Rightarrow> string" where
  "upload_key (StorageUpload b k bl opts) = k"
| "upload_key e = []"

definition upload_keys :: "event list \<Rightarrow> string list" where
  "upload_keys t = map upload_key (filter is_upload t)"

section \<open>Sample inputs\<close>

definition sample_world :: world where
  "sample_world =
     \<lparr>remove_outcome = (\<lambda>ks. Resolved),
      upload_outcome = (\<lambda>k. Resolved),
      getPublicUrl = (\<lambda>k. ''https://p.supabase.co/storage/v1/object/public/uploads/'' @ k),
      insert_outcome = (\<lambda>u. Resolved),
      delete_outcome = (\<lambda>i. Resolved),
      random_token = ''k3js9x'',
      date_now = 1700000000000,
      createObjectURL = (\<lambda>f. ''blob:'' @ file_name f)\<rparr>"

text \<open>The same platform with a store that rejects every call and a table that returns errors.\<close>

definition failing_world :: world where
  "failing_world =
     sample_world\<lparr>remove_outcome := (\<lambda>ks. Rejected ''network''),
                  upload_outcome := (\<lambda>k. ReturnedError ''The resource already exists''),
                  delete_outcome := (\<lambda>i. ReturnedError ''permission denied'')\<rparr>"

text \<open>A store whose \<^verbatim>\<open>remove\<close> resolves with an error object instead of rejecting.\<close>

definition refusing_world :: world where
  "refusing_world = sample_world\<lparr>remove_outcome := (\<lambda>ks. ReturnedError ''Object not found'')\<rparr>"

definition sample_png :: File where
  "sample_png =
     \<lparr>file_name = ''photo.png'', file_type = ''image/png'', file_size = 204800,
      file_image = Some (2000, 1000)\<rparr>"

definition sample_square :: File where
  "sample_square = sample_png\<lparr>file_image := Some (500, 500)\<rparr>"

definition sample_portrait :: File where
  "sample_portrait = sample_png\<lparr>file_image := Some (1000, 2000)\<rparr>"

text \<open>A picture whose shorter edge scales to less than one pixel: 5000 \<times> 2.\<close>

definition sample_thin :: File where
  "sample_thin = sample_png\<lparr>file_image := Some (5000, 2)\<rparr>"

definition sample_huge :: File where
  "sample_huge = sample_png\<lparr>file_size := 10485761\<rparr>"

definition sample_pdf :: File where
  "sample_pdf =
     \<lparr>file_name = ''notes.pdf'', file_type = ''application/pdf'', file_size = 1024,
      file_image = None\<rparr>"

definition sample_state :: imageUpload_state where
  "sample_state = \<lparr>iu_preview = [], iu_uploading = False\<rparr>"

definition sample_gallery :: gallery_state where
  "sample_gallery =
     \<lparr>g_images = [\<lparr>gi_id = 7, gi_image = ''https://example.com/a.jpg'', gi_created_at = []\<rparr>],
      g_selectedFile = Some sample_png, g_previewUrl = Some ''blob:photo.png'',
      g_uploading = False, g_uploadDialogOpen = True\<rparr>"

definition external_url :: string where
  "external_url = ''https://example.com/a.jpg''"

definition stored_url :: string where
  "stored_url = ''https://p.supabase.co/storage/v1/object/public/uploads/old.jpg''"

section \<open>Facts about the string operations\<close>

lemma split_str_nonempty: "split_str c s \<noteq> []"
  by (induction s) (auto split: list.splits)

lemma startsWith_iff: "startsWith s p \<longleftrightarrow> (\<exists>post. s = p @ post)"
  unfolding startsWith_def by (metis append_eq_conv_conj append_take_drop_id)

lemma includes_str_iff: "includes_str s m \<longleftrightarrow> (\<exists>pre post. s = pre @ m @ post)"
proof (induction s)
  case Nil
  show ?case by auto
next
  case (Cons c s)
  have "(\<exists>pre post. c # s = pre @ m @ post) \<longleftrightarrow>
        (\<exists>post. c # s = m @ post) \<or> (\<exists>pre post. s = pre @ m @ post)"
  proof
    assume "\<exists>pre post. c # s = pre @ m @ post"
    then obtain pre post where e: "c # s = pre @ m @ post" by blast
    show "(\<exists>post. c # s = m @ post) \<or> (\<exists>pre post. s = pre @ m @ post)"
    proof (cases pre)
      case Nil
      with e show ?thesis by auto
    next
      case (Cons a pre')
      with e have "s = pre' @ m @ post" by simp
      then show ?thesis by blast
    qed
  next
    assume "(\<exists>post. c # s = m @ post) \<or> (\<exists>pre post. s = pre @ m @ post)"
    then show "\<exists>pre post. c # s = pre @ m @ post"
    proof
      assume "\<exists>post. c # s = m @ post"
      then obtain post where "c # s = [] @ m @ post" by auto
      then show ?thesis by blast
    next
      assume "\<exists>pre post. s = pre @ m @ post"
      then obtain pre post where "c # s = (c # pre) @ m @ post" by auto
      then show ?thesis by blast
    qed
  qed
  with Cons show ?case by (simp add: startsWith_iff)
qed

lemma split_str_no_sep: "c \<notin> set s \<Longrightarrow> split_str c s = [s]"
  by (induction s) auto

lemma split_str_two: "c \<in> set s \<Longrightarrow> \<exists>p q qs. split_str c s = p # q # qs"
proof (induction s)
  case Nil
  then show ?case by simp
next
  case (Cons x xs)
  obtain r rs where r: "split_str c xs = r # rs"
    using split_str_nonempty [of c xs] by (cases "split_str c xs") auto
  show ?case
  proof (cases "x = c")
    case True
    with r show ?thesis by simp
  next
    case False
    with Cons.prems have "c \<in> set xs" by simp
    from Cons.IH [OF this] obtain p q qs where "split_str c xs = p # q # qs" by blast
    with False show ?thesis by simp
  qed
qed

lemma last_split_str_skip: "last (split_str c (pre @ c # s)) = last (split_str c s)"
proof (induction pre)
  case Nil
  show ?case by (simp add: split_str_nonempty)
next
  case (Cons x pre)
  have "c \<in> set (pre @ c # s)" by simp
  from split_str_two [OF this] obtain p q qs where
    e: "split_str c (pre @ c # s) = p # q # qs" by blast
  with Cons show ?case by simp
qed

text \<open>The last piece of a split is what follows the last separator.\<close>

lemma last_split_after_last_sep:
  "c \<notin> set post \<Longrightarrow> last (split_str c (pre @ c # post)) = post"
  by (simp add: last_split_str_skip split_str_no_sep)

lemma last_split_decomp:
  assumes "c \<in> set s"
  shows "\<exists>pre. s = pre @ c # last (split_str c s) \<and> c \<notin> set (last (split_str c s))"
proof -
  from assms obtain pre post where s: "s = pre @ c # post" and n: "c \<notin> set post"
    using split_list_last by fastforce
  from n have "last (split_str c (pre @ c # post)) = post"
    by (rule last_split_after_last_sep)
  with s n show ?thesis by auto
qed

section \<open>Facts about resizing\<close>

lemma canvas_size_of_nat: "canvas_size (of_nat a) = a"
  unfolding canvas_size_def by simp

lemma canvas_size_close: "0 \<le> x \<Longrightarrow> \<bar>real (canvas_size x) - x\<bar> < 1"
  unfolding canvas_size_def by (simp add: abs_less_iff) linarith

lemma canvas_size_le: "0 \<le> x \<Longrightarrow> x \<le> real m \<Longrightarrow> canvas_size x \<le> m"
  unfolding canvas_size_def by (simp add: nat_le_iff floor_le_iff)

lemma scaled_le:
  assumes "a \<le> b" "0 < b"
  shows "real a * real m / real b \<le> real m"
proof -
  have "real a * real m \<le> real b * real m"
    using assms by (simp add: mult_right_mono)
  with assms show ?thesis by (simp add: divide_le_eq mult.commute)
qed

text \<open>The two copies of the computation (ImageUpload.tsx, Gallery.tsx) agree.\<close>

lemma gallery_resizeImage_dims_eq:
  "gallery_resizeImage_dims w h m = resizeImage_dims w h m"
  by (simp add: gallery_resizeImage_dims_def resizeImage_dims_def Let_def)

lemma dims_landscape:
  assumes "h < w" "m < w"
  shows "canvas_dims (resizeImage_dims w h m) = (m, canvas_size (real h * real m / real w))"
  using assms by (simp add: resizeImage_dims_def canvas_dims_def canvas_size_of_nat)

lemma dims_portrait:
  assumes "w \<le> h" "m < h"
  shows "canvas_dims (resizeImage_dims w h m) = (canvas_size (real w * real m / real h), m)"
  using assms by (simp add: resizeImage_dims_def canvas_dims_def canvas_size_of_nat)

lemma dims_small:
  assumes "w \<le> m" "h \<le> m"
  shows "canvas_dims (resizeImage_dims w h m) = (w, h)"
  using assms by (simp add: resizeImage_dims_def canvas_dims_def canvas_size_of_nat)

lemma blob_dims_toBlob:
  "map_option blob_dims (toBlob f d t q) = (if fst d = 0 \<or> snd d = 0 then None else Some d)"
  by (simp add: toBlob_def blob_dims_def)

text \<open>
  Claim C1. For a decoded image of \<open>w \<times> h\<close> pixels and any \<open>maxSize = m\<close>, both resize
  functions compute the same output dimensions, the natural-number size of the canvas.
  When both edges are at most \<open>m\<close> the dimensions are those of the input. When the longer
  edge exceeds \<open>m\<close>, the longer edge of the output is exactly \<open>m\<close>, the other edge does not
  exceed it and lies less than one pixel from the exactly proportional value. The promise of
  either function resolves with what \<^verbatim>\<open>toBlob\<close> gives for a canvas of these dimensions: a
  JPEG blob of exactly these dimensions, or \<^verbatim>\<open>null\<close> when one of them is zero.
\<close>

theorem resize_output_dimensions:
  "canvas_dims (gallery_resizeImage_dims w h m) = canvas_dims (resizeImage_dims w h m) \<and>
   (w \<le> m \<and> h \<le> m \<longrightarrow> canvas_dims (resizeImage_dims w h m) = (w, h)) \<and>
   (m < w \<and> h < w \<longrightarrow>
      fst (canvas_dims (resizeImage_dims w h m)) = m \<and>
      snd (canvas_dims (resizeImage_dims w h m)) \<le> m \<and>
      \<bar>real (snd (canvas_dims (resizeImage_dims w h m))) - real h * real m / real w\<bar> < 1) \<and>
   (m < h \<and> w \<le> h \<longrightarrow>
      snd (canvas_dims (resizeImage_dims w h m)) = m \<and>
      fst (canvas_dims (resizeImage_dims w h m)) \<le> m \<and>
      \<bar>real (fst (canvas_dims (resizeImage_dims w h m))) - real w * real m / real h\<bar> < 1) \<and>
   (file_image f = Some (w, h) \<longrightarrow>
      resizeImage f m =
        Some (toBlob f (canvas_dims (resizeImage_dims w h m)) ''image/jpeg'' (8 / 10)) \<and>
      gallery_resizeImage f m =
        Some (toBlob f (canvas_dims (resizeImage_dims w h m)) ''image/jpeg'' (9 / 10)) \<and>
      map_option blob_dims
        (toBlob f (canvas_dims (resizeImage_dims w h m)) ''image/jpeg'' (8 / 10)) =
        (if fst (canvas_dims (resizeImage_dims w h m)) = 0 \<or>
            snd (canvas_dims (resizeImage_dims w h m)) = 0
         then None else Some (canvas_dims (resizeImage_dims w h m))) \<and>
      map_option blob_dims
        (toBlob f (canvas_dims (resizeImage_dims w h m)) ''image/jpeg'' (9 / 10)) =
        (if fst (canvas_dims (resizeImage_dims w h m)) = 0 \<or>
            snd (canvas_dims (resizeImage_dims w h m)) = 0
         then None else Some (canvas_dims (resizeImage_dims w h m))))"
proof -
  let ?d = "canvas_dims (resizeImage_dims w h m)"
  have same: "canvas_dims (gallery_resizeImage_dims w h m) = ?d"
    by (simp add: gallery_resizeImage_dims_eq)
  have small: "w \<le> m \<and> h \<le> m \<longrightarrow> ?d = (w, h)"
    by (simp add: dims_small)
  have land: "m < w \<and> h < w \<longrightarrow>
      fst ?d = m \<and> snd ?d \<le> m \<and> \<bar>real (snd ?d) - real h * real m / real w\<bar> < 1"
  proof
    assume a: "m < w \<and> h < w"
    then have d: "?d = (m, canvas_size (real h * real m / real w))"
      by (simp add: dims_landscape)
    have nn: "0 \<le> real h * real m / real w" by simp
    have le: "real h * real m / real w \<le> real m"
      using a by (intro scaled_le) auto
    show "fst ?d = m \<and> snd ?d \<le> m \<and> \<bar>real (snd ?d) - real h * real m / real w\<bar> < 1"
      unfolding d using canvas_size_le [OF nn le] canvas_size_close [OF nn] by simp
  qed
  have port: "m < h \<and> w \<le> h \<longrightarrow>
      snd ?d = m \<and> fst ?d \<le> m \<and> \<bar>real (fst ?d) - real w * real m / real h\<bar> < 1"
  proof
    assume a: "m < h \<and> w \<le> h"
    then have d: "?d = (canvas_size (real w * real m / real h), m)"
      by (simp add: dims_portrait)
    have nn: "0 \<le> real w * real m / real h" by simp
    have le: "real w * real m / real h \<le> real m"
      using a by (intro scaled_le) auto
    show "snd ?d = m \<and> fst ?d \<le> m \<and> \<bar>real (fst ?d) - real w * real m / real h\<bar> < 1"
      unfolding d using canvas_size_le [OF nn le] canvas_size_close [OF nn] by simp
  qed
  have res: "file_image f = Some (w, h) \<longrightarrow>
      resizeImage f m = Some (toBlob f ?d ''image/jpeg'' (8 / 10)) \<and>
      gallery_resizeImage f m = Some (toBlob f ?d ''image/jpeg'' (9 / 10))"
    by (simp add: resizeImage_def gallery_resizeImage_def gallery_resizeImage_dims_eq Let_def)
  have b8: "map_option blob_dims (toBlob f ?d ''image/jpeg'' (8 / 10)) =
      (if fst ?d = 0 \<or> snd ?d = 0 then None else Some ?d)"
    by (rule blob_dims_toBlob)
  have b9: "map_option blob_dims (toBlob f ?d ''image/jpeg'' (9 / 10)) =
      (if fst ?d = 0 \<or> snd ?d = 0 then None else Some ?d)"
    by (rule blob_dims_toBlob)
  from same small land port res b8 b9 show ?thesis by blast
qed

text \<open>
  The theorem at four inputs, all with the default \<open>maxSize\<close> 1080: 2000 \<times> 1000 gives
  1080 \<times> 540, 500 \<times> 500 stays as it is, 1000 \<times> 2000 gives 540 \<times> 1080, and 5000 \<times> 2 gives
  a canvas of 1080 \<times> 0, for which there is no blob.
\<close>

theorem resize_output_dimensions_witness:
  "file_image sample_png = Some (2000, 1000) \<and>
   file_image sample_square = Some (500, 500) \<and>
   file_image sample_portrait = Some (1000, 2000) \<and>
   file_image sample_thin = Some (5000, 2) \<and>
   canvas_dims (resizeImage_dims 2000 1000 1080) = (1080, 540) \<and>
   canvas_dims (gallery_resizeImage_dims 2000 1000 1080) = (1080, 540) \<and>
   canvas_dims (resizeImage_dims 500 500 1080) = (500, 500) \<and>
   canvas_dims (resizeImage_dims 1000 2000 1080) = (540, 1080) \<and>
   canvas_dims (resizeImage_dims 5000 2 1080) = (1080, 0) \<and>
   map_option (map_option blob_dims) (resizeImage sample_png 1080) = Some (Some (1080, 540)) \<and>
   map_option (map_option blob_dims) (gallery_resizeImage sample_png 1080) =
     Some (Some (1080, 540)) \<and>
   map_option (map_option blob_dims) (resizeImage sample_square 1080) = Some (Some (500, 500)) \<and>
   map_option (map_option blob_dims) (resizeImage sample_portrait 1080) =
     Some (Some (540, 1080)) \<and>
   resizeImage sample_thin 1080 = Some None \<and>
   gallery_resizeImage sample_thin 1080 = Some None"
  using resize_output_dimensions [of 2000 1000 1080 sample_png]
    resize_output_dimensions [of 500 500 1080 sample_square]
    resize_output_dimensions [of 1000 2000 1080 sample_portrait]
    resize_output_dimensions [of 5000 2 1080 sample_thin]
  by (simp add: sample_png_def sample_square_def sample_portrait_def sample_thin_def
      blob_dims_def toBlob_def resizeImage_def gallery_resizeImage_def resizeImage_dims_def
      gallery_resizeImage_dims_def canvas_dims_def canvas_size_def)

section \<open>Validation of the selected file\<close>

text \<open>
  Claim C2. A selected file whose declared media type does not start with \<^verbatim>\<open>image/\<close>, or
  whose size exceeds 10,485,760 bytes, makes both file-select handlers report a validation
  error and return: the only effect is the error toast, no call reaches the store or the
  database, the component state is unchanged, and in the gallery the rejected file does not
  become the selected file, so a later confirmation behaves as before.
\<close>

theorem rejected_file_is_not_uploaded:
  assumes "\<not> startsWith (file_type f) ''image/'' \<or> file_size f > 10485760"
  shows "handleFileSelect w val st (Some f) =
           (st, [ToastError (if \<not> startsWith (file_type f) ''image/''
                             then ''Please select an image file''
                             else ''File size must be less than 10MB'')]) \<and>
         gallery_handleFileSelect w g (Some f) =
           (g, [ToastError (if \<not> startsWith (file_type f) ''image/''
                            then ''Please select an image file''
                            else ''File size must be less than 10MB'')]) \<and>
         filter is_remote (snd (handleFileSelect w val st (Some f))) = [] \<and>
         filter is_remote (snd (gallery_handleFileSelect w g (Some f))) = [] \<and>
         handleConfirmUpload w (fst (gallery_handleFileSelect w g (Some f))) =
           handleConfirmUpload w g"
  using assms by (auto simp: handleFileSelect_def gallery_handleFileSelect_def)

text \<open>A PDF and an image of 10,485,761 bytes are both turned away.\<close>

theorem rejected_file_is_not_uploaded_witness:
  "\<not> startsWith (file_type sample_pdf) ''image/'' \<and>
   file_size sample_huge > 10485760 \<and>
   handleFileSelect failing_world stored_url sample_state (Some sample_pdf) =
     (sample_state, [ToastError ''Please select an image file'']) \<and>
   handleFileSelect failing_world stored_url sample_state (Some sample_huge) =
     (sample_state, [ToastError ''File size must be less than 10MB'']) \<and>
   gallery_handleFileSelect failing_world sample_gallery (Some sample_huge) =
     (sample_gallery, [ToastError ''File size must be less than 10MB''])"
  using rejected_file_is_not_uploaded [of sample_pdf failing_world stored_url sample_state sample_gallery]
    rejected_file_is_not_uploaded [of sample_huge failing_world stored_url sample_state sample_gallery]
  by (simp add: sample_pdf_def sample_huge_def sample_png_def startsWith_def)

section \<open>The traces of the workflows\<close>

text \<open>Unfolding bundles for evaluating the workflows on the sample inputs.\<close>

lemmas sample_defs =
  sample_world_def failing_world_def refusing_world_def sample_thin_def sample_png_def sample_square_def sample_portrait_def
  sample_huge_def sample_pdf_def sample_state_def sample_gallery_def external_url_def
  stored_url_def

lemmas workflow_defs =
  uploadImage_def upload_failed_def deleteOldImage_def deleteImageFromStorage_def
  iu_fileName_def toBlob_def resizeImage_def resizeImage_dims_def handleFileSelect_def removeImage_def
  gallery_resizeImage_def gallery_resizeImage_dims_def gallery_handleFileSelect_def
  handleCancelUpload_def gallery_fileName_def confirm_failed_def handleConfirmUpload_def
  delete_failed_def delete_done_def handleDeleteImage_def
  canvas_dims_def canvas_size_def storage_marker_def startsWith_def
  show_nat.simps digit_char_def run_succeeded_def upload_keys_def Let_def


lemma deleteOldImage_empty: "deleteOldImage w [] = []"
  by (simp add: deleteOldImage_def)

lemma deleteOldImage_cases:
  "deleteOldImage w url =
     (if includes_str url storage_marker
      then StorageRemove ''uploads'' [last (split_str CHR ''/'' url)] #
           (case remove_outcome w [last (split_str CHR ''/'' url)] of
              Rejected m \<Rightarrow> [ConsoleError ''Error deleting old image:'']
            | _ \<Rightarrow> [])
      else [])"
  by (cases "url = []")
     (auto simp: deleteOldImage_def Let_def storage_marker_def split: outcome.splits)

lemma deleteImageFromStorage_cases:
  "deleteImageFromStorage w url =
     (if includes_str url storage_marker
      then StorageRemove ''uploads'' [last (split_str CHR ''/'' url)] #
           (case remove_outcome w [last (split_str CHR ''/'' url)] of
              Rejected m \<Rightarrow> [ConsoleError ''Error deleting image:'']
            | _ \<Rightarrow> [])
      else [])"
  by (cases "url = []")
     (auto simp: deleteImageFromStorage_def Let_def storage_marker_def split: outcome.splits)

lemma filter_is_remove_deleteOldImage:
  "filter is_remove (deleteOldImage w url) =
     (if includes_str url storage_marker
      then [StorageRemove ''uploads'' [last (split_str CHR ''/'' url)]] else [])"
  by (simp add: deleteOldImage_cases split: outcome.splits)

lemma filter_is_upload_deleteOldImage: "filter is_upload (deleteOldImage w url) = []"
  by (simp add: deleteOldImage_cases split: outcome.splits)

lemma filter_is_toast_error_deleteOldImage: "filter is_toast_error (deleteOldImage w url) = []"
  by (simp add: deleteOldImage_cases split: outcome.splits)

lemma filter_is_onChange_deleteOldImage: "filter is_onChange (deleteOldImage w url) = []"
  by (simp add: deleteOldImage_cases split: outcome.splits)

lemma no_success_in_deleteOldImage: "ToastSuccess m \<notin> set (deleteOldImage w url)"
  by (simp add: deleteOldImage_cases split: outcome.splits)


lemma uploadImage_trace:
  "snd (uploadImage w val st f) =
     deleteOldImage w val @
     (case resizeImage f 1080 of
        None \<Rightarrow> []
      | Some b \<Rightarrow>
          StorageUpload ''uploads'' (iu_fileName w f) b
            (Some \<lparr>contentType = ''image/jpeg'', upsert = False\<rparr>) #
          iu_after_upload w (iu_fileName w f))"
  by (simp add: uploadImage_def upload_failed_def iu_after_upload_def Let_def deleteOldImage_empty
      split: option.splits outcome.splits)

lemma resizeImage_None_iff: "resizeImage f m = None \<longleftrightarrow> file_image f = None"
  by (simp add: resizeImage_def Let_def split: option.splits prod.splits)

lemma gallery_resizeImage_None_iff: "gallery_resizeImage f m = None \<longleftrightarrow> file_image f = None"
  by (simp add: gallery_resizeImage_def Let_def split: option.splits prod.splits)

lemma uploadImage_success_iff:
  "run_succeeded (snd (uploadImage w val st f)) \<longleftrightarrow>
     file_image f \<noteq> None \<and> upload_outcome w (iu_fileName w f) = Resolved"
proof (cases "resizeImage f 1080")
  case None
  then have "file_image f = None" by (simp add: resizeImage_None_iff)
  with None show ?thesis
    by (simp add: uploadImage_trace run_succeeded_def no_success_in_deleteOldImage)
next
  case (Some b)
  then have "file_image f \<noteq> None"
    using resizeImage_None_iff [of f 1080] by simp
  with Some show ?thesis
    by (simp add: uploadImage_trace run_succeeded_def no_success_in_deleteOldImage
        iu_after_upload_def split: outcome.splits)
qed


lemma handleConfirmUpload_trace:
  "snd (handleConfirmUpload w st) =
     (case g_selectedFile st of
        None \<Rightarrow> []
      | Some f \<Rightarrow>
          (case gallery_resizeImage f 1080 of
             None \<Rightarrow> []
           | Some b \<Rightarrow>
               StorageUpload ''uploads'' (gallery_fileName w f) b None #
               gallery_after_upload w st (gallery_fileName w f)))"
  by (simp add: handleConfirmUpload_def confirm_failed_def gallery_after_upload_def Let_def
      split: option.splits outcome.splits prod.splits)

lemma handleCancelUpload_trace:
  "snd (handleCancelUpload st) =
     (case g_previewUrl st of None \<Rightarrow> [] | Some u \<Rightarrow> if u = [] then [] else [RevokeObjectURL u])"
  by (simp add: handleCancelUpload_def)

lemma filter_is_remove_cancel: "filter is_remove (snd (handleCancelUpload st)) = []"
  by (simp add: handleCancelUpload_trace split: option.splits)

lemma filter_is_upload_cancel: "filter is_upload (snd (handleCancelUpload st)) = []"
  by (simp add: handleCancelUpload_trace split: option.splits)

lemma filter_is_remove_gallery_after: "filter is_remove (gallery_after_upload w st k) = []"
  by (simp add: gallery_after_upload_def filter_is_remove_cancel split: outcome.splits)

lemma filter_is_upload_gallery_after: "filter is_upload (gallery_after_upload w st k) = []"
  by (simp add: gallery_after_upload_def filter_is_upload_cancel split: outcome.splits)

lemma filter_is_upload_iu_after: "filter is_upload (iu_after_upload w k) = []"
  by (simp add: iu_after_upload_def split: outcome.splits)

lemma filter_is_remove_iu_after: "filter is_remove (iu_after_upload w k) = []"
  by (simp add: iu_after_upload_def split: outcome.splits)


section \<open>Deletions and uploads of a successful run\<close>

text \<open>
  Claim C3 as stated fails: a successful run of the single-image workflow whose prior
  reference is the non-empty, externally hosted \<^verbatim>\<open>https://example.com/a.jpg\<close> makes no store
  deletion attempt at all.
\<close>

theorem external_prior_reference_is_not_deleted:
  "run_succeeded (snd (uploadImage sample_world external_url sample_state sample_png)) \<and>
   external_url \<noteq> [] \<and>
   filter is_remove (snd (uploadImage sample_world external_url sample_state sample_png)) = []"
  by (simp add: sample_defs workflow_defs)


text \<open>
  Claim C3, amended. A successful run of the single-image workflow makes exactly one store
  deletion attempt, for the key after the last \<^verbatim>\<open>/\<close> of the prior reference, when that
  reference is non-empty and contains the storage path marker, and none otherwise. The
  gallery workflow has no prior reference and makes no deletion attempt. A successful run of
  either workflow makes exactly one upload attempt.
\<close>

theorem successful_run_deletions_and_uploads:
  "(run_succeeded (snd (uploadImage w val st f)) \<longrightarrow>
      filter is_remove (snd (uploadImage w val st f)) =
        (if val \<noteq> [] \<and> includes_str val storage_marker
         then [StorageRemove ''uploads'' [last (split_str CHR ''/'' val)]]
         else []) \<and>
      length (filter is_upload (snd (uploadImage w val st f))) = 1) \<and>
   (run_succeeded (snd (handleConfirmUpload w g)) \<longrightarrow>
      filter is_remove (snd (handleConfirmUpload w g)) = [] \<and>
      length (filter is_upload (snd (handleConfirmUpload w g))) = 1)"
proof (intro conjI impI)
  assume s: "run_succeeded (snd (uploadImage w val st f))"
  then have "resizeImage f 1080 \<noteq> None"
    by (simp add: uploadImage_success_iff resizeImage_None_iff)
  then obtain b where b: "resizeImage f 1080 = Some b" by blast
  show "filter is_remove (snd (uploadImage w val st f)) =
        (if val \<noteq> [] \<and> includes_str val storage_marker
         then [StorageRemove ''uploads'' [last (split_str CHR ''/'' val)]]
         else [])"
    by (cases "val = []")
       (simp_all add: uploadImage_trace b filter_is_remove_deleteOldImage
          filter_is_remove_iu_after deleteOldImage_empty)
  show "length (filter is_upload (snd (uploadImage w val st f))) = 1"
    by (simp add: uploadImage_trace b filter_is_upload_deleteOldImage filter_is_upload_iu_after)
next
  assume s: "run_succeeded (snd (handleConfirmUpload w g))"
  have "g_selectedFile g \<noteq> None"
  proof
    assume "g_selectedFile g = None"
    with s show False by (simp add: handleConfirmUpload_trace run_succeeded_def)
  qed
  then obtain f where f: "g_selectedFile g = Some f" by blast
  have "gallery_resizeImage f 1080 \<noteq> None"
  proof
    assume "gallery_resizeImage f 1080 = None"
    with s f show False by (simp add: handleConfirmUpload_trace run_succeeded_def)
  qed
  then obtain b where b: "gallery_resizeImage f 1080 = Some b" by blast
  show "filter is_remove (snd (handleConfirmUpload w g)) = []"
    by (simp add: handleConfirmUpload_trace f b filter_is_remove_gallery_after)
  show "length (filter is_upload (snd (handleConfirmUpload w g))) = 1"
    by (simp add: handleConfirmUpload_trace f b filter_is_upload_gallery_after)
qed


text \<open>Both workflows succeed on the sample inputs; the prior reference is a stored object.\<close>

theorem successful_run_deletions_and_uploads_witness:
  "run_succeeded (snd (uploadImage sample_world stored_url sample_state sample_png)) \<and>
   run_succeeded (snd (handleConfirmUpload sample_world sample_gallery)) \<and>
   filter is_remove (snd (uploadImage sample_world stored_url sample_state sample_png)) =
     [StorageRemove ''uploads'' [''old.jpg'']] \<and>
   upload_keys (snd (uploadImage sample_world stored_url sample_state sample_png)) =
     [''k3js9x-1700000000000.png''] \<and>
   upload_keys (snd (handleConfirmUpload sample_world sample_gallery)) =
     [''1700000000000-photo.png'']"
  using successful_run_deletions_and_uploads
    [of sample_world stored_url sample_state sample_png sample_gallery]
  by (simp add: sample_defs workflow_defs)

section \<open>Which URLs lead to a store deletion\<close>

lemma slash_in_marked_url:
  assumes "includes_str url storage_marker"
  shows "CHR ''/'' \<in> set url"
proof -
  from assms obtain pre post where "url = pre @ storage_marker @ post"
    by (auto simp: includes_str_iff)
  then show ?thesis by (simp add: storage_marker_def)
qed

lemma handleDeleteImage_trace:
  "snd (handleDeleteImage w st i url) =
     GalleryDelete i #
     (case delete_outcome w i of
        Resolved \<Rightarrow>
          (if includes_str url storage_marker
           then StorageRemove ''uploads'' [last (split_str CHR ''/'' url)] #
                (case remove_outcome w [last (split_str CHR ''/'' url)] of
                   Rejected m \<Rightarrow>
                     [ConsoleError ''Error deleting image:'', ToastError ''Failed to delete image'']
                 | _ \<Rightarrow> [ToastSuccess ''Image deleted successfully''])
           else [ToastSuccess ''Image deleted successfully''])
      | _ \<Rightarrow> [ConsoleError ''Error deleting image:'', ToastError ''Failed to delete image''])"
  by (simp add: handleDeleteImage_def delete_failed_def delete_done_def Let_def
      split: outcome.splits)

text \<open>
  Claim C4. The cleanup helpers of the single-image field and of the activities page, and
  the gallery deletion, call the store's \<^verbatim>\<open>remove\<close> only for a URL that contains the marker
  \<^verbatim>\<open>/storage/v1/object/public/uploads/\<close>; for a URL without the marker there is no such
  call. When the call is made it is made once, on the bucket \<^verbatim>\<open>uploads\<close>, and the key passed
  is the part of the URL after its last \<^verbatim>\<open>/\<close>. (In the gallery the call is only reached once
  the row deletion has resolved.)
\<close>

theorem store_delete_only_for_marked_urls:
  "(\<not> includes_str url storage_marker \<longrightarrow>
      filter is_remove (deleteOldImage w url) = [] \<and>
      filter is_remove (deleteImageFromStorage w url) = [] \<and>
      filter is_remove (snd (handleDeleteImage w g i url)) = []) \<and>
   (includes_str url storage_marker \<longrightarrow>
      (\<exists>pre key. url = pre @ CHR ''/'' # key \<and> CHR ''/'' \<notin> set key \<and>
         filter is_remove (deleteOldImage w url) = [StorageRemove ''uploads'' [key]] \<and>
         filter is_remove (deleteImageFromStorage w url) = [StorageRemove ''uploads'' [key]] \<and>
         filter is_remove (snd (handleDeleteImage w g i url)) =
           (if delete_outcome w i = Resolved then [StorageRemove ''uploads'' [key]] else [])))"
proof (intro conjI impI)
  assume n: "\<not> includes_str url storage_marker"
  show "filter is_remove (deleteOldImage w url) = []"
    using n by (simp add: deleteOldImage_cases)
  show "filter is_remove (deleteImageFromStorage w url) = []"
    using n by (simp add: deleteImageFromStorage_cases)
  show "filter is_remove (snd (handleDeleteImage w g i url)) = []"
    using n by (simp add: handleDeleteImage_trace split: outcome.splits)
next
  assume m: "includes_str url storage_marker"
  let ?key = "last (split_str CHR ''/'' url)"
  from slash_in_marked_url [OF m] obtain pre where
    d: "url = pre @ CHR ''/'' # ?key" and k: "CHR ''/'' \<notin> set ?key"
    using last_split_decomp by blast
  have 1: "filter is_remove (deleteOldImage w url) = [StorageRemove ''uploads'' [?key]]"
    using m by (simp add: deleteOldImage_cases split: outcome.splits)
  have 2: "filter is_remove (deleteImageFromStorage w url) = [StorageRemove ''uploads'' [?key]]"
    using m by (simp add: deleteImageFromStorage_cases split: outcome.splits)
  have 3: "filter is_remove (snd (handleDeleteImage w g i url)) =
           (if delete_outcome w i = Resolved then [StorageRemove ''uploads'' [?key]] else [])"
    using m by (simp add: handleDeleteImage_trace split: outcome.splits)
  from d k 1 2 3
  show "\<exists>pre key. url = pre @ CHR ''/'' # key \<and> CHR ''/'' \<notin> set key \<and>
         filter is_remove (deleteOldImage w url) = [StorageRemove ''uploads'' [key]] \<and>
         filter is_remove (deleteImageFromStorage w url) = [StorageRemove ''uploads'' [key]] \<and>
         filter is_remove (snd (handleDeleteImage w g i url)) =
           (if delete_outcome w i = Resolved then [StorageRemove ''uploads'' [key]] else [])"
    by blast
qed

text \<open>An externally hosted URL and a URL of the uploads bucket.\<close>

theorem store_delete_only_for_marked_urls_witness:
  "\<not> includes_str external_url storage_marker \<and>
   includes_str stored_url storage_marker \<and>
   deleteOldImage sample_world external_url = [] \<and>
   deleteImageFromStorage sample_world external_url = [] \<and>
   deleteOldImage sample_world stored_url = [StorageRemove ''uploads'' [''old.jpg'']] \<and>
   deleteImageFromStorage failing_world stored_url =
     [StorageRemove ''uploads'' [''old.jpg''], ConsoleError ''Error deleting image:'']"
  using store_delete_only_for_marked_urls [of external_url sample_world sample_gallery 7]
    store_delete_only_for_marked_urls [of stored_url sample_world sample_gallery 7]
  by (simp add: sample_defs workflow_defs)

section \<open>A failed cleanup\<close>

text \<open>
  Claim C5 as stated fails in its logging part: when the store answers the deletion with
  an error object instead of rejecting, \<open>deleteOldImage\<close> discards the answer, nothing is
  caught and the whole run writes no console log.
\<close>

theorem returned_deletion_error_is_not_logged:
  "stored_url \<noteq> [] \<and> includes_str stored_url storage_marker \<and>
   remove_outcome refusing_world [last (split_str CHR ''/'' stored_url)] =
     ReturnedError ''Object not found'' \<and>
   deleteOldImage refusing_world stored_url = [StorageRemove ''uploads'' [''old.jpg'']] \<and>
   filter is_console_error
     (snd (uploadImage refusing_world stored_url sample_state sample_png)) = []"
  by (simp add: sample_defs workflow_defs)

text \<open>
  Claim C5, amended. When the prior reference is a stored object and its deletion fails
  (the call rejects, or returns an error object), the run is the cleanup followed by
  exactly the run that has no prior reference: the cleanup consists of the \<^verbatim>\<open>remove\<close> call
  and, only when the call rejected, one console log (a returned error object is discarded
  without a log); it shows no error toast; and for a file that decodes the continuation
  starts with the upload call for the result of the resize step.
\<close>

theorem failed_cleanup_does_not_abort:
  assumes "val \<noteq> []" and "includes_str val storage_marker"
    and "remove_outcome w [last (split_str CHR ''/'' val)] \<noteq> Resolved"
    and "file_image f = Some (iw, ih)"
  shows "uploadImage w val st f =
           (fst (uploadImage w [] st f), deleteOldImage w val @ snd (uploadImage w [] st f)) \<and>
         deleteOldImage w val =
           StorageRemove ''uploads'' [last (split_str CHR ''/'' val)] #
           (case remove_outcome w [last (split_str CHR ''/'' val)] of
              Rejected m \<Rightarrow> [ConsoleError ''Error deleting old image:'']
            | _ \<Rightarrow> []) \<and>
         filter is_toast_error (deleteOldImage w val) = [] \<and>
         (\<exists>b rest. resizeImage f 1080 = Some b \<and>
            snd (uploadImage w [] st f) =
              StorageUpload ''uploads'' (iu_fileName w f) b
                (Some \<lparr>contentType = ''image/jpeg'', upsert = False\<rparr>) # rest)"
proof (intro conjI)
  show "uploadImage w val st f =
           (fst (uploadImage w [] st f), deleteOldImage w val @ snd (uploadImage w [] st f))"
    by (simp add: uploadImage_def upload_failed_def Let_def deleteOldImage_empty
        split: option.splits outcome.splits)
  show "deleteOldImage w val =
           StorageRemove ''uploads'' [last (split_str CHR ''/'' val)] #
           (case remove_outcome w [last (split_str CHR ''/'' val)] of
              Rejected m \<Rightarrow> [ConsoleError ''Error deleting old image:'']
            | _ \<Rightarrow> [])"
    using assms(2) by (simp add: deleteOldImage_cases)
  show "filter is_toast_error (deleteOldImage w val) = []"
    by (rule filter_is_toast_error_deleteOldImage)
  from assms(4) have "resizeImage f 1080 \<noteq> None"
    by (simp add: resizeImage_None_iff)
  then obtain b where b: "resizeImage f 1080 = Some b" by blast
  then show "\<exists>b rest. resizeImage f 1080 = Some b \<and>
            snd (uploadImage w [] st f) =
              StorageUpload ''uploads'' (iu_fileName w f) b
                (Some \<lparr>contentType = ''image/jpeg'', upsert = False\<rparr>) # rest"
    by (simp add: uploadImage_trace deleteOldImage_empty)
qed

text \<open>
  A store that rejects the deletion: the log entry is followed by the upload. A store that
  returns an error object: the upload follows the \<^verbatim>\<open>remove\<close> call directly.
\<close>

theorem failed_cleanup_does_not_abort_witness:
  "stored_url \<noteq> [] \<and> includes_str stored_url storage_marker \<and>
   remove_outcome failing_world [last (split_str CHR ''/'' stored_url)] = Rejected ''network'' \<and>
   file_image sample_png = Some (2000, 1000) \<and>
   take 3 (snd (uploadImage failing_world stored_url sample_state sample_png)) =
     [StorageRemove ''uploads'' [''old.jpg''],
      ConsoleError ''Error deleting old image:'',
      StorageUpload ''uploads'' ''k3js9x-1700000000000.png''
        (Some \<lparr>blob_type = ''image/jpeg'', blob_quality = 8 / 10, blob_width = 1080,
               blob_height = 540, blob_source = sample_png\<rparr>)
        (Some \<lparr>contentType = ''image/jpeg'', upsert = False\<rparr>)] \<and>
   remove_outcome refusing_world [last (split_str CHR ''/'' stored_url)] =
     ReturnedError ''Object not found'' \<and>
   take 2 (snd (uploadImage refusing_world stored_url sample_state sample_png)) =
     [StorageRemove ''uploads'' [''old.jpg''],
      StorageUpload ''uploads'' ''k3js9x-1700000000000.png''
        (Some \<lparr>blob_type = ''image/jpeg'', blob_quality = 8 / 10, blob_width = 1080,
               blob_height = 540, blob_source = sample_png\<rparr>)
        (Some \<lparr>contentType = ''image/jpeg'', upsert = False\<rparr>)]"
  using failed_cleanup_does_not_abort
    [of stored_url failing_world sample_png 2000 1000 sample_state]
    failed_cleanup_does_not_abort
    [of stored_url refusing_world sample_png 2000 1000 sample_state]
  by (simp add: sample_defs workflow_defs)

section \<open>A failed upload\<close>

lemma uploadImage_state:
  "fst (uploadImage w val st f) =
     (case resizeImage f 1080 of
        None \<Rightarrow> st\<lparr>iu_uploading := True\<rparr>
      | Some b \<Rightarrow>
          (case upload_outcome w (iu_fileName w f) of
             Resolved \<Rightarrow> st\<lparr>iu_preview := getPublicUrl w (iu_fileName w f), iu_uploading := False\<rparr>
           | _ \<Rightarrow> st\<lparr>iu_uploading := False\<rparr>))"
  by (simp add: uploadImage_def upload_failed_def Let_def split: option.splits outcome.splits)

text \<open>
  Claim C6. When the upload call of a decodable file returns an error object or rejects
  (a key conflict is one such error), the single-image workflow stops after logging and
  showing an error toast (the error's message, or \<^verbatim>\<open>Failed to upload image\<close> when the message
  is empty): \<^verbatim>\<open>onChange\<close> is not called, the preview keeps its value and the run is not
  successful. The gallery workflow likewise stops after the toast \<^verbatim>\<open>Failed to upload image\<close>
  and inserts no row.
\<close>

theorem upload_error_commits_no_link:
  "(file_image f = Some (iw, ih) \<and>
    (upload_outcome w (iu_fileName w f) = ReturnedError m \<or>
     upload_outcome w (iu_fileName w f) = Rejected m) \<longrightarrow>
      (\<exists>b. resizeImage f 1080 = Some b \<and>
         snd (uploadImage w val st f) =
           deleteOldImage w val @
           [StorageUpload ''uploads'' (iu_fileName w f) b
              (Some \<lparr>contentType = ''image/jpeg'', upsert = False\<rparr>),
            ConsoleError ''Upload error:'',
            ToastError (if m = [] then ''Failed to upload image'' else m)]) \<and>
      filter is_onChange (snd (uploadImage w val st f)) = [] \<and>
      iu_preview (fst (uploadImage w val st f)) = iu_preview st \<and>
      \<not> run_succeeded (snd (uploadImage w val st f))) \<and>
   (g_selectedFile g = Some f \<and> file_image f = Some (iw, ih) \<and>
    (upload_outcome w (gallery_fileName w f) = ReturnedError m \<or>
     upload_outcome w (gallery_fileName w f) = Rejected m) \<longrightarrow>
      (\<exists>b. gallery_resizeImage f 1080 = Some b \<and>
         snd (handleConfirmUpload w g) =
           [StorageUpload ''uploads'' (gallery_fileName w f) b None,
            ConsoleError ''Error uploading image:'',
            ToastError ''Failed to upload image'']) \<and>
      filter is_insert (snd (handleConfirmUpload w g)) = [] \<and>
      \<not> run_succeeded (snd (handleConfirmUpload w g)))"
proof (intro conjI impI)
  assume a: "file_image f = Some (iw, ih) \<and>
    (upload_outcome w (iu_fileName w f) = ReturnedError m \<or>
     upload_outcome w (iu_fileName w f) = Rejected m)"
  then have "resizeImage f 1080 \<noteq> None" by (simp add: resizeImage_None_iff)
  then obtain b where b: "resizeImage f 1080 = Some b" by blast
  from a have u: "iu_after_upload w (iu_fileName w f) =
      [ConsoleError ''Upload error:'', ToastError (if m = [] then ''Failed to upload image'' else m)]"
    by (auto simp: iu_after_upload_def)
  have t: "snd (uploadImage w val st f) =
           deleteOldImage w val @
           [StorageUpload ''uploads'' (iu_fileName w f) b
              (Some \<lparr>contentType = ''image/jpeg'', upsert = False\<rparr>),
            ConsoleError ''Upload error:'',
            ToastError (if m = [] then ''Failed to upload image'' else m)]"
    by (simp add: uploadImage_trace b u)
  with b show "\<exists>b. resizeImage f 1080 = Some b \<and>
         snd (uploadImage w val st f) =
           deleteOldImage w val @
           [StorageUpload ''uploads'' (iu_fileName w f) b
              (Some \<lparr>contentType = ''image/jpeg'', upsert = False\<rparr>),
            ConsoleError ''Upload error:'',
            ToastError (if m = [] then ''Failed to upload image'' else m)]"
    by blast
  show "filter is_onChange (snd (uploadImage w val st f)) = []"
    by (simp add: t filter_is_onChange_deleteOldImage)
  show "iu_preview (fst (uploadImage w val st f)) = iu_preview st"
    using a by (auto simp: uploadImage_state b)
  show "\<not> run_succeeded (snd (uploadImage w val st f))"
    using a by (auto simp: uploadImage_success_iff)
next
  assume a: "g_selectedFile g = Some f \<and> file_image f = Some (iw, ih) \<and>
    (upload_outcome w (gallery_fileName w f) = ReturnedError m \<or>
     upload_outcome w (gallery_fileName w f) = Rejected m)"
  then have "gallery_resizeImage f 1080 \<noteq> None" by (simp add: gallery_resizeImage_None_iff)
  then obtain b where b: "gallery_resizeImage f 1080 = Some b" by blast
  from a have u: "gallery_after_upload w g (gallery_fileName w f) =
      [ConsoleError ''Error uploading image:'', ToastError ''Failed to upload image'']"
    by (auto simp: gallery_after_upload_def)
  have t: "snd (handleConfirmUpload w g) =
           [StorageUpload ''uploads'' (gallery_fileName w f) b None,
            ConsoleError ''Error uploading image:'',
            ToastError ''Failed to upload image'']"
    using a by (simp add: handleConfirmUpload_trace b u)
  with b show "\<exists>b. gallery_resizeImage f 1080 = Some b \<and>
         snd (handleConfirmUpload w g) =
           [StorageUpload ''uploads'' (gallery_fileName w f) b None,
            ConsoleError ''Error uploading image:'',
            ToastError ''Failed to upload image'']"
    by blast
  show "filter is_insert (snd (handleConfirmUpload w g)) = []"
    by (simp add: t)
  show "\<not> run_succeeded (snd (handleConfirmUpload w g))"
    by (simp add: t run_succeeded_def)
qed

text \<open>A store that answers every upload with a conflict error.\<close>

theorem upload_error_commits_no_link_witness:
  "file_image sample_png = Some (2000, 1000) \<and>
   g_selectedFile sample_gallery = Some sample_png \<and>
   upload_outcome failing_world (iu_fileName failing_world sample_png) =
     ReturnedError ''The resource already exists'' \<and>
   upload_outcome failing_world (gallery_fileName failing_world sample_png) =
     ReturnedError ''The resource already exists'' \<and>
   drop 1 (snd (uploadImage failing_world [] sample_state sample_png)) =
     [ConsoleError ''Upload error:'', ToastError ''The resource already exists''] \<and>
   drop 1 (snd (handleConfirmUpload failing_world sample_gallery)) =
     [ConsoleError ''Error uploading image:'', ToastError ''Failed to upload image'']"
  using upload_error_commits_no_link
    [of sample_png 2000 1000 failing_world "''The resource already exists''" "[]"
        sample_state sample_gallery]
  by (simp add: sample_defs workflow_defs)

section \<open>The arguments of the upload call\<close>

lemma filter_is_upload_uploadImage:
  "filter is_upload (snd (uploadImage w val st f)) =
     (case resizeImage f 1080 of
        None \<Rightarrow> []
      | Some b \<Rightarrow>
          [StorageUpload ''uploads'' (iu_fileName w f) b
             (Some \<lparr>contentType = ''image/jpeg'', upsert = False\<rparr>)])"
  by (simp add: uploadImage_trace filter_is_upload_deleteOldImage filter_is_upload_iu_after
      split: option.splits)

lemma filter_is_upload_handleConfirmUpload:
  "filter is_upload (snd (handleConfirmUpload w g)) =
     (case g_selectedFile g of
        None \<Rightarrow> []
      | Some f \<Rightarrow>
          (case gallery_resizeImage f 1080 of
             None \<Rightarrow> []
           | Some b \<Rightarrow> [StorageUpload ''uploads'' (gallery_fileName w f) b None]))"
  by (simp add: handleConfirmUpload_trace filter_is_upload_gallery_after split: option.splits)


section \<open>The object key\<close>

lemma last_split_has_no_sep: "c \<notin> set (last (split_str c s))"
proof (cases "c \<in> set s")
  case True
  then show ?thesis using last_split_decomp by blast
next
  case False
  then show ?thesis by (simp add: split_str_no_sep)
qed

lemma upload_keys_uploadImage:
  "upload_keys (snd (uploadImage w val st f)) =
     (case file_image f of None \<Rightarrow> [] | Some d \<Rightarrow> [iu_fileName w f])"
proof (cases "file_image f")
  case None
  then have "resizeImage f 1080 = None" by (simp add: resizeImage_None_iff)
  with None show ?thesis by (simp add: upload_keys_def filter_is_upload_uploadImage)
next
  case (Some d)
  then have "resizeImage f 1080 \<noteq> None" by (simp add: resizeImage_None_iff)
  then obtain b where "resizeImage f 1080 = Some b" by blast
  with Some show ?thesis by (simp add: upload_keys_def filter_is_upload_uploadImage)
qed

lemma upload_keys_gallery:
  assumes "g_selectedFile g = Some sf"
  shows "upload_keys (snd (handleConfirmUpload w g)) =
     (case file_image sf of None \<Rightarrow> [] | Some d \<Rightarrow> [gallery_fileName w sf])"
proof (cases "file_image sf")
  case None
  then have "gallery_resizeImage sf 1080 = None" by (simp add: gallery_resizeImage_None_iff)
  with None assms show ?thesis by (simp add: upload_keys_def filter_is_upload_handleConfirmUpload)
next
  case (Some d)
  then have "gallery_resizeImage sf 1080 \<noteq> None" by (simp add: gallery_resizeImage_None_iff)
  then obtain b where "gallery_resizeImage sf 1080 = Some b" by blast
  with Some assms show ?thesis
    by (simp add: upload_keys_def filter_is_upload_handleConfirmUpload)
qed

text \<open>
  Claim C8 as stated fails in its last part: for the PNG file \<^verbatim>\<open>photo.png\<close> both workflows
  upload the JPEG blob under a key that ends in \<^verbatim>\<open>.png\<close>.
\<close>

theorem key_keeps_original_extension:
  "upload_keys (snd (uploadImage sample_world [] sample_state sample_png)) =
     [''k3js9x-1700000000000.png''] \<and>
   \<not> list_all jpeg_suffixed (upload_keys (snd (uploadImage sample_world [] sample_state sample_png))) \<and>
   upload_keys (snd (handleConfirmUpload sample_world sample_gallery)) =
     [''1700000000000-photo.png''] \<and>
   \<not> list_all jpeg_suffixed (upload_keys (snd (handleConfirmUpload sample_world sample_gallery)))"
  by (simp add: sample_defs workflow_defs jpeg_suffixed_def endsWith_def)

text \<open>
  Claim C8, amended. The key of the single-image workflow is the random token, a hyphen,
  the timestamp in decimal, a dot, and the extension of the original file name (what
  follows its last dot, or the whole name when it has no dot). The key of the gallery
  workflow is the timestamp in decimal, a hyphen, and the original file name. The suffix
  is thus the one of the original file name; it is not chosen for the JPEG encoding.
\<close>

theorem object_key_shape:
  "upload_keys (snd (uploadImage w val st f)) =
     (case file_image f of
        None \<Rightarrow> []
      | Some d \<Rightarrow>
          [random_token w @ ''-'' @ show_nat (date_now w) @ ''.'' @
           last (split_str CHR ''.'' (file_name f))]) \<and>
   CHR ''.'' \<notin> set (last (split_str CHR ''.'' (file_name f))) \<and>
   (CHR ''.'' \<in> set (file_name f) \<longrightarrow>
      (\<exists>pre. file_name f = pre @ ''.'' @ last (split_str CHR ''.'' (file_name f)))) \<and>
   (CHR ''.'' \<notin> set (file_name f) \<longrightarrow> last (split_str CHR ''.'' (file_name f)) = file_name f) \<and>
   (g_selectedFile g = Some sf \<longrightarrow>
      upload_keys (snd (handleConfirmUpload w g)) =
        (case file_image sf of
           None \<Rightarrow> []
         | Some d \<Rightarrow> [show_nat (date_now w) @ ''-'' @ file_name sf]))"
proof (intro conjI impI)
  show "upload_keys (snd (uploadImage w val st f)) =
     (case file_image f of
        None \<Rightarrow> []
      | Some d \<Rightarrow>
          [random_token w @ ''-'' @ show_nat (date_now w) @ ''.'' @
           last (split_str CHR ''.'' (file_name f))])"
    by (simp add: upload_keys_uploadImage iu_fileName_def Let_def split: option.splits)
  show "CHR ''.'' \<notin> set (last (split_str CHR ''.'' (file_name f)))"
    by (rule last_split_has_no_sep)
  show "\<exists>pre. file_name f = pre @ ''.'' @ last (split_str CHR ''.'' (file_name f))"
    if "CHR ''.'' \<in> set (file_name f)"
    using last_split_decomp [OF that] by auto
  show "last (split_str CHR ''.'' (file_name f)) = file_name f"
    if "CHR ''.'' \<notin> set (file_name f)"
    using that by (simp add: split_str_no_sep)
  show "upload_keys (snd (handleConfirmUpload w g)) =
        (case file_image sf of
           None \<Rightarrow> []
         | Some d \<Rightarrow> [show_nat (date_now w) @ ''-'' @ file_name sf])"
    if "g_selectedFile g = Some sf"
    using upload_keys_gallery [OF that] by (simp add: gallery_fileName_def split: option.splits)
qed

text \<open>A file name with an extension, and one without.\<close>

theorem object_key_shape_witness:
  "CHR ''.'' \<in> set (file_name sample_png) \<and>
   CHR ''.'' \<notin> set (file_name (sample_png\<lparr>file_name := ''photo''\<rparr>)) \<and>
   g_selectedFile sample_gallery = Some sample_png \<and>
   upload_keys (snd (uploadImage sample_world [] sample_state sample_png)) =
     [''k3js9x-1700000000000.png''] \<and>
   upload_keys (snd (uploadImage sample_world [] sample_state (sample_png\<lparr>file_name := ''photo''\<rparr>))) =
     [''k3js9x-1700000000000.photo''] \<and>
   upload_keys (snd (handleConfirmUpload sample_world sample_gallery)) =
     [''1700000000000-photo.png'']"
  using object_key_shape [of sample_world "[]" sample_state sample_png sample_gallery sample_png]
    object_key_shape [of sample_world "[]" sample_state "sample_png\<lparr>file_name := ''photo''\<rparr>"
      sample_gallery sample_png]
  by (simp add: sample_defs workflow_defs)

section \<open>Removing an image\<close>

lemma handleDeleteImage_state:
  "fst (handleDeleteImage w g i url) =
     (if ToastSuccess ''Image deleted successfully'' \<in> set (snd (handleDeleteImage w g i url))
      then g\<lparr>g_images := filter (\<lambda>img. gi_id img \<noteq> i) (g_images g)\<rparr>
      else g)"
  by (simp add: handleDeleteImage_def delete_failed_def delete_done_def Let_def
      split: outcome.splits)

text \<open>
  Claim C9. When the linked URL does not contain the storage path marker, removing the
  image makes no store deletion call and still clears the link: the single-image field
  empties its preview and calls \<^verbatim>\<open>onChange\<close> with the empty string, and the gallery still
  issues the deletion of the database row (and, once that has resolved, reports success and
  drops the image from its list).
\<close>

theorem removal_of_external_reference:
  assumes "\<not> includes_str url storage_marker"
  shows "(iu_preview st = url \<longrightarrow>
            removeImage w st = (st\<lparr>iu_preview := []\<rparr>, [OnChange []])) \<and>
         snd (handleDeleteImage w g i url) =
           GalleryDelete i #
           (case delete_outcome w i of
              Resolved \<Rightarrow> [ToastSuccess ''Image deleted successfully'']
            | _ \<Rightarrow> [ConsoleError ''Error deleting image:'',
                    ToastError ''Failed to delete image'']) \<and>
         filter is_remove (snd (handleDeleteImage w g i url)) = [] \<and>
         (delete_outcome w i = Resolved \<longrightarrow>
            fst (handleDeleteImage w g i url) =
              g\<lparr>g_images := filter (\<lambda>img. gi_id img \<noteq> i) (g_images g)\<rparr>)"
proof (intro conjI impI)
  show "removeImage w st = (st\<lparr>iu_preview := []\<rparr>, [OnChange []])" if "iu_preview st = url"
    using that assms by (simp add: removeImage_def deleteOldImage_cases)
  show t: "snd (handleDeleteImage w g i url) =
           GalleryDelete i #
           (case delete_outcome w i of
              Resolved \<Rightarrow> [ToastSuccess ''Image deleted successfully'']
            | _ \<Rightarrow> [ConsoleError ''Error deleting image:'',
                    ToastError ''Failed to delete image''])"
    using assms by (simp add: handleDeleteImage_trace split: outcome.splits)
  show "filter is_remove (snd (handleDeleteImage w g i url)) = []"
    by (simp add: t split: outcome.splits)
  show "fst (handleDeleteImage w g i url) =
              g\<lparr>g_images := filter (\<lambda>img. gi_id img \<noteq> i) (g_images g)\<rparr>"
    if "delete_outcome w i = Resolved"
    using that by (simp add: handleDeleteImage_state t)
qed

text \<open>Removing an externally hosted image from the field and from the gallery.\<close>

theorem removal_of_external_reference_witness:
  "\<not> includes_str external_url storage_marker \<and>
   iu_preview (sample_state\<lparr>iu_preview := external_url\<rparr>) = external_url \<and>
   delete_outcome sample_world 7 = Resolved \<and>
   removeImage sample_world (sample_state\<lparr>iu_preview := external_url\<rparr>) =
     (sample_state, [OnChange []]) \<and>
   handleDeleteImage sample_world sample_gallery 7 external_url =
     (sample_gallery\<lparr>g_images := []\<rparr>,
      [GalleryDelete 7, ToastSuccess ''Image deleted successfully''])"
  using removal_of_external_reference
    [of external_url "sample_state\<lparr>iu_preview := external_url\<rparr>" sample_world sample_gallery 7]
  by (simp add: sample_defs workflow_defs)

text \<open>
  Claim C10. The gallery deletion issues the deletion of the database row first; a store
  deletion call can only follow when the row deletion has resolved without error. When
  the row deletion returns an error or rejects, the operation ends with the error toast,
  with the state unchanged and without any store deletion call.
\<close>

theorem row_deletion_precedes_store_deletion:
  "(\<exists>rest. snd (handleDeleteImage w g i url) = GalleryDelete i # rest \<and>
            (filter is_remove rest \<noteq> [] \<longrightarrow> delete_outcome w i = Resolved)) \<and>
   (delete_outcome w i \<noteq> Resolved \<longrightarrow>
      handleDeleteImage w g i url =
        (g, [GalleryDelete i, ConsoleError ''Error deleting image:'',
             ToastError ''Failed to delete image'']))"
proof (intro conjI impI)
  let ?rest = "tl (snd (handleDeleteImage w g i url))"
  have 1: "snd (handleDeleteImage w g i url) = GalleryDelete i # ?rest"
    by (simp add: handleDeleteImage_trace)
  have 2: "filter is_remove ?rest \<noteq> [] \<longrightarrow> delete_outcome w i = Resolved"
    by (simp add: handleDeleteImage_trace split: outcome.splits)
  from 1 2 show "\<exists>rest. snd (handleDeleteImage w g i url) = GalleryDelete i # rest \<and>
            (filter is_remove rest \<noteq> [] \<longrightarrow> delete_outcome w i = Resolved)"
    by blast
next
  assume "delete_outcome w i \<noteq> Resolved"
  then show "handleDeleteImage w g i url =
        (g, [GalleryDelete i, ConsoleError ''Error deleting image:'',
             ToastError ''Failed to delete image''])"
    by (simp add: handleDeleteImage_def delete_failed_def Let_def split: outcome.splits)
qed

text \<open>A table that refuses the deletion, and one that accepts it.\<close>

theorem row_deletion_precedes_store_deletion_witness:
  "delete_outcome failing_world 7 \<noteq> Resolved \<and>
   handleDeleteImage failing_world sample_gallery 7 stored_url =
     (sample_gallery, [GalleryDelete 7, ConsoleError ''Error deleting image:'',
                       ToastError ''Failed to delete image'']) \<and>
   snd (handleDeleteImage sample_world sample_gallery 7 stored_url) =
     [GalleryDelete 7, StorageRemove ''uploads'' [''old.jpg''],
      ToastSuccess ''Image deleted successfully'']"
  using row_deletion_precedes_store_deletion [of failing_world sample_gallery 7 stored_url]
    row_deletion_precedes_store_deletion [of sample_world sample_gallery 7 stored_url]
  by (simp add: sample_defs workflow_defs)

end
